theory Spec2Isabelle
  imports Main
begin

section \<open>Strings\<close>

text \<open>
  Python strings are modelled as \<open>string\<close> (byte lists). \<open>str.strip()\<close> and
  \<open>str.lower()\<close> are built-ins that follow the Unicode tables, so the model takes them
  as parameters (see the record \<open>lib\<close>). The two functions here are their restriction to
  ASCII text, used when a concrete run is evaluated: white space at both ends is
  removed, the capital letters A to Z become small letters.
\<close>

definition is_space :: "char \<Rightarrow> bool" where
  "is_space c = (c \<in> set [CHR 0x09, CHR 0x0A, CHR 0x0B, CHR 0x0C, CHR 0x0D,
                           CHR 0x1C, CHR 0x1D, CHR 0x1E, CHR 0x1F, CHR 0x20])"

definition ascii_strip :: "string \<Rightarrow> string" where
  "ascii_strip s = rev (dropWhile is_space (rev (dropWhile is_space s)))"

definition lower_char :: "char \<Rightarrow> char" where
  "lower_char c =
     (case map_of (zip ''ABCDEFGHIJKLMNOPQRSTUVWXYZ'' ''abcdefghijklmnopqrstuvwxyz'') c of
        Some d \<Rightarrow> d
      | None \<Rightarrow> c)"

definition ascii_lower :: "string \<Rightarrow> string" where
  "ascii_lower s = map lower_char s"

section \<open>JSON text as \<open>json.dumps(..., ensure_ascii=False)\<close> writes it\<close>

definition hex_digit :: "nat \<Rightarrow> char" where
  "hex_digit n = ''0123456789abcdef'' ! (n mod 16)"

text \<open>
  The escapes of Python's encoder without \<open>ensure_ascii\<close>: the quote, the backslash,
  the five named control characters, and \<open>\u00XX\<close> for the other bytes below 0x20.
\<close>

definition json_escape :: "char \<Rightarrow> string" where
  "json_escape c =
     (if c = CHR 0x22 then [CHR 0x5C, CHR 0x22]
      else if c = CHR 0x5C then [CHR 0x5C, CHR 0x5C]
      else if c = CHR 0x0A then [CHR 0x5C, CHR ''n'']
      else if c = CHR 0x0D then [CHR 0x5C, CHR ''r'']
      else if c = CHR 0x09 then [CHR 0x5C, CHR ''t'']
      else if c = CHR 0x08 then [CHR 0x5C, CHR ''b'']
      else if c = CHR 0x0C then [CHR 0x5C, CHR ''f'']
      else if (of_char c :: nat) < 32
        then [CHR 0x5C, CHR ''u'', CHR ''0'', CHR ''0'',
              hex_digit (of_char c div 16), hex_digit (of_char c)]
      else [c])"

definition json_string :: "string \<Rightarrow> string" where
  "json_string s = CHR 0x22 # concat (map json_escape s) @ [CHR 0x22]"

fun json_members :: "(string \<times> string) list \<Rightarrow> string" where
  "json_members [] = []"
| "json_members [(k, v)] = json_string k @ '': '' @ v"
| "json_members ((k, v) # kvs) = json_string k @ '': '' @ v @ '', '' @ json_members kvs"

text \<open>An object whose member values are already JSON text.\<close>

definition json_object :: "(string \<times> string) list \<Rightarrow> string" where
  "json_object kvs = ''{'' @ json_members kvs @ ''}''"

text \<open>A \<open>dict\<close> from strings to strings, in insertion order.\<close>

type_synonym dict = "(string \<times> string) list"

definition json_dict :: "dict \<Rightarrow> string" where
  "json_dict d = json_object (map (\<lambda>(k, v). (k, json_string v)) d)"

section \<open>Process configuration and third-party functions\<close>

text \<open>
  The module reads \<open>PASC_SECRET_KEY\<close> (required) and \<open>PASC_HMAC_KEY\<close> from the
  environment and calls into \<open>hmac\<close>/\<open>hashlib\<close>, \<open>itsdangerous\<close> and \<open>pyotp\<close>.
  None of that code is part of the repository, so the keys and the library primitives
  are parameters of the model:
  \<^item> \<open>hmac_sha256_hex key msg\<close> is \<open>hmac.new(key, msg, hashlib.sha256).hexdigest()\<close>;
  \<^item> \<open>token_tag key body\<close> is the authentication tag the serializer puts on a token body;
  \<^item> \<open>encode_payload obj t\<close> and \<open>decode_payload\<close> are the serializer's encoding of a
    payload with its issuance time, and the decoder of it;
  \<^item> \<open>generate_otp secret counter\<close> is the one-time code of a secret at a time step;
  \<^item> \<open>strip\<close> and \<open>lower\<close> are Python's \<open>str.strip()\<close> and \<open>str.lower()\<close>.

  \<open>decode_payload body\<close> is \<open>None\<close> when no issuance time can be read from the body,
  \<open>Some (t, None)\<close> when the time \<open>t\<close> is read but the payload does not decode, and
  \<open>Some (t, Some obj)\<close> when both are read.
\<close>

record lib =
  SECRET_KEY :: string
  PASC_HMAC_KEY :: "string option"
  hmac_sha256_hex :: "string \<Rightarrow> string \<Rightarrow> string"
  token_tag :: "string \<Rightarrow> string \<Rightarrow> string"
  encode_payload :: "dict \<Rightarrow> int \<Rightarrow> string"
  decode_payload :: "string \<Rightarrow> (int \<times> dict option) option"
  generate_otp :: "string \<Rightarrow> int \<Rightarrow> string"
  strip :: "string \<Rightarrow> string"
  lower :: "string \<Rightarrow> string"

text \<open>\<open>HMAC_KEY = os.environ.get('PASC_HMAC_KEY') or SECRET_KEY\<close>: an empty value is falsy.\<close>

definition HMAC_KEY :: "lib \<Rightarrow> string" where
  "HMAC_KEY L =
     (case PASC_HMAC_KEY L of
        None \<Rightarrow> SECRET_KEY L
      | Some k \<Rightarrow> if k = [] then SECRET_KEY L else k)"

text \<open>
  What one run of the script reads from outside: the clock (seconds since the epoch and
  the text of \<open>datetime.utcnow().isoformat()\<close>), the random secret pyotp would draw, and
  whether the mail transport and the audit file accept a write in this run.
\<close>

record env =
  now :: int
  utcnow :: string
  random_base32 :: string
  mail_ok :: bool
  sink_ok :: bool

datatype exn = BadSignature | SignatureExpired | BadPayload | MailError | OSError

section \<open>The audit log\<close>

record audit_record =
  timestamp :: string
  event :: string
  details :: dict

definition json_record :: "audit_record \<Rightarrow> string" where
  "json_record r =
     json_object [(''timestamp'', json_string (timestamp r)),
                  (''event'', json_string (event r)),
                  (''details'', json_dict (details r))]"

definition sign_record :: "lib \<Rightarrow> string \<Rightarrow> string" where
  "sign_record L record = hmac_sha256_hex L (HMAC_KEY L) record"

text \<open>The line \<open>audit\<close> writes for a record and its tag, with the newline.\<close>

definition audit_line :: "audit_record \<Rightarrow> string \<Rightarrow> string" where
  "audit_line r signature =
     json_object [(''record'', json_record r), (''hmac'', json_string signature)] @ [CHR 0x0A]"

definition make_record :: "env \<Rightarrow> string \<Rightarrow> dict \<Rightarrow> audit_record" where
  "make_record E ev d = \<lparr>timestamp = utcnow E @ ''Z'', event = ev, details = d\<rparr>"

text \<open>
  \<open>audit\<close> on the audit file, a list of the lines appended so far. Opening or writing
  the file raises \<open>OSError\<close> when the sink does not accept the write; nothing is
  appended then.
\<close>

definition audit :: "lib \<Rightarrow> env \<Rightarrow> string \<Rightarrow> dict \<Rightarrow> string list \<Rightarrow> exn + string list" where
  "audit L E ev d file =
     (let record = make_record E ev d;
          line = json_record record;
          signature = sign_record L line
      in if sink_ok E then Inr (file @ [audit_line record signature]) else Inl OSError)"


section \<open>The token serializer\<close>

text \<open>
  Modelled from the spec: \<open>URL_SIGNER\<close> is an \<open>itsdangerous.URLSafeTimedSerializer\<close>,
  whose \<open>dumps\<close> and \<open>loads\<close> are not part of the repository. The spec's token is an
  encoded payload (subject, purpose, issuance time) plus an authentication tag derived
  from the payload bytes and the shared key; verification decodes and checks the tag and
  fails if the tag does not match, if the payload is malformed, or if
  \<open>now - issuanceTime > maxAge\<close>. The model joins body and tag with a dot and splits a
  token at its last dot. The exceptions are the library's: \<open>BadSignature\<close> (or its
  subclass \<open>BadTimeSignature\<close>, not told apart here) for a tag that does not match or
  an issuance time that cannot be read, \<open>SignatureExpired\<close> for an age above
  \<open>max_age\<close> or below zero, and \<open>BadPayload\<close>, which is not a \<open>BadSignature\<close>, for
  a payload that does not decode under a tag that verified.
\<close>

text \<open>Modelled from the spec: a token text is split into body and tag at its last dot.\<close>

definition rsplit_dot :: "string \<Rightarrow> (string \<times> string) option" where
  "rsplit_dot s =
     (if CHR ''.'' \<in> set s
      then Some (rev (tl (dropWhile (\<lambda>c. c \<noteq> CHR ''.'') (rev s))),
                 rev (takeWhile (\<lambda>c. c \<noteq> CHR ''.'') (rev s)))
      else None)"

text \<open>
  Modelled from the spec: \<open>URL_SIGNER.dumps(obj)\<close> at time \<open>t\<close>, the encoded payload
  with its tag under the process key.
\<close>

definition signer_dumps :: "lib \<Rightarrow> dict \<Rightarrow> int \<Rightarrow> string" where
  "signer_dumps L obj t =
     (let body = encode_payload L obj t
      in body @ ''.'' @ token_tag L (SECRET_KEY L) body)"

text \<open>
  Modelled from the spec: \<open>URL_SIGNER.loads(token, max_age=max_age)\<close> at time \<open>t\<close>. The
  tag is checked first, then the issuance time is read and the age checked, and the
  payload is decoded last.
\<close>

definition signer_loads :: "lib \<Rightarrow> string \<Rightarrow> int \<Rightarrow> int \<Rightarrow> exn + dict" where
  "signer_loads L token max_age t =
     (case rsplit_dot token of
        None \<Rightarrow> Inl BadSignature
      | Some (body, tag) \<Rightarrow>
          if tag \<noteq> token_tag L (SECRET_KEY L) body then Inl BadSignature
          else (case decode_payload L body of
                  None \<Rightarrow> Inl BadSignature
                | Some (issued, payload) \<Rightarrow>
                    if t - issued > max_age \<or> t - issued < 0 then Inl SignatureExpired
                    else (case payload of
                            None \<Rightarrow> Inl BadPayload
                          | Some obj \<Rightarrow> Inr obj)))"

definition generate_email_token :: "lib \<Rightarrow> env \<Rightarrow> string \<Rightarrow> string" where
  "generate_email_token L E e =
     signer_dumps L [(''email'', e), (''purpose'', ''login'')] (now E)"

text \<open>The default of the parameter \<open>max_age\<close> of \<open>verify_email_token\<close>.\<close>

definition default_max_age :: int where
  "default_max_age = 600"

text \<open>
  \<open>verify_email_token\<close>: the \<open>except (BadSignature, SignatureExpired)\<close> clause turns
  these two (and their subclasses) into \<open>None\<close>; any other exception leaves the
  function (\<open>Inl\<close>).
\<close>

definition verify_email_token :: "lib \<Rightarrow> env \<Rightarrow> string \<Rightarrow> int \<Rightarrow> exn + dict option" where
  "verify_email_token L E token max_age =
     (case signer_loads L token max_age (now E) of
        Inr data \<Rightarrow> Inr (Some data)
      | Inl x \<Rightarrow> if x = BadSignature \<or> x = SignatureExpired then Inr None else Inl x)"

section \<open>Time-based one-time codes\<close>

text \<open>
  Modelled from the spec: \<open>pyotp.TOTP(secret).verify(code, valid_window=w)\<close> is not part
  of the repository. The spec's verifier computes the expected code for the current
  30-second time step and for up to \<open>w\<close> steps before and after it, and accepts a
  submitted code equal to one of them.
\<close>

text \<open>Modelled from the spec: the 30-second time step of a clock reading.\<close>

definition timecode :: "int \<Rightarrow> int" where
  "timecode t = t div 30"

text \<open>Modelled from the spec: the expected code \<open>offset\<close> steps from the current step.\<close>

definition totp_at :: "lib \<Rightarrow> string \<Rightarrow> int \<Rightarrow> int \<Rightarrow> string" where
  "totp_at L secret t offset = generate_otp L secret (timecode t + offset)"

text \<open>Modelled from the spec: the submitted code equals an expected code of the window.\<close>

definition totp_verify :: "lib \<Rightarrow> string \<Rightarrow> string \<Rightarrow> int \<Rightarrow> int \<Rightarrow> bool" where
  "totp_verify L secret otp valid_window t =
     list_ex (\<lambda>i. otp = totp_at L secret t i) [- valid_window..valid_window]"

section \<open>Users, session and the world of a run\<close>

text \<open>\<open>UserModel\<close> without its surrogate key, which the database assigns.\<close>

record user =
  user_email :: string
  totp_secret :: string
  is_active :: bool
  created_at :: string

record session =
  email :: string
  pending_token :: string
  authenticated :: bool

definition initial_session :: session where
  "initial_session = \<lparr>email = [], pending_token = [], authenticated = False\<rparr>"

text \<open>
  The state a run works on: the Streamlit session, the \<open>users\<close> table, the audit file
  and the messages handed to the mail transport (recipient and token). The database is
  taken as available: its queries and commits do not raise.
\<close>

record world =
  session_state :: session
  users :: "user list"
  audit_file :: "string list"
  outbox :: "(string \<times> string) list"

datatype msg =
    Connected string
  | InfoCodeSent
  | ErrorSendingMail
  | ErrorRequestFirst
  | ErrorTokenInvalid
  | ErrorCodeInvalid
  | ErrorUserNotFound

text \<open>
  How a run ends: at the end of the script, at \<open>st.stop()\<close>, at
  \<open>st.experimental_rerun()\<close>, or with an exception that nothing catches.
\<close>

datatype outcome = Finished | Stopped | Rerun | Raised exn

datatype credential = SignaturePath | TotpPath

text \<open>
  What a run leaves: the world, the messages shown, how it ended, and which credential
  checks it made (\<open>verify_email_token\<close>, \<open>totp.verify\<close>), in order.
\<close>

record run =
  after :: world
  ui :: "msg list"
  outcome :: outcome
  attempted :: "credential list"

definition query_user :: "user list \<Rightarrow> string \<Rightarrow> user option" where
  "query_user us e = find (\<lambda>u. user_email u = e) us"

section \<open>The three flows of the script\<close>

text \<open>
  \<open>send_email_token\<close>: the message is handed to the mail transport, which raises when
  it cannot deliver.
\<close>

definition send_email_token ::
  "env \<Rightarrow> string \<Rightarrow> string \<Rightarrow> (string \<times> string) list \<Rightarrow> exn + (string \<times> string) list" where
  "send_email_token E e token box = (if mail_ok E then Inr (box @ [(e, token)]) else Inl MailError)"

text \<open>
  The request branch. The user row is committed before the mail is sent. \<open>send\<close>,
  \<open>audit\<close> and the two session assignments stand in one \<open>try\<close> whose handler
  catches every exception and only shows an error.
\<close>

definition request_flow :: "lib \<Rightarrow> env \<Rightarrow> string \<Rightarrow> world \<Rightarrow> run" where
  "request_flow L E text w =
     (let e = lower L (strip L text);
          us = (case query_user (users w) e of
                  None \<Rightarrow> users w @ [\<lparr>user_email = e, totp_secret = random_base32 E,
                                        is_active = True, created_at = utcnow E\<rparr>]
                | Some u \<Rightarrow> users w);
          w1 = w\<lparr>users := us\<rparr>;
          token = generate_email_token L E e
      in case send_email_token E e token (outbox w1) of
           Inl x \<Rightarrow>
             \<lparr>after = w1, ui = [ErrorSendingMail], outcome = Finished, attempted = []\<rparr>
         | Inr box \<Rightarrow>
             (let w2 = w1\<lparr>outbox := box\<rparr>
              in case audit L E ''request_access'' [(''email'', e)] (audit_file w2) of
                   Inl x \<Rightarrow>
                     \<lparr>after = w2, ui = [ErrorSendingMail], outcome = Finished, attempted = []\<rparr>
                 | Inr f \<Rightarrow>
                     \<lparr>after = w2\<lparr>audit_file := f,
                                   session_state :=
                                     (session_state w2)\<lparr>email := e, pending_token := token\<rparr>\<rparr>,
                      ui = [InfoCodeSent], outcome = Finished, attempted = []\<rparr>))"

text \<open>\<open>payload and payload.get('email') == email\<close>.\<close>

definition payload_ok :: "dict option \<Rightarrow> string \<Rightarrow> bool" where
  "payload_ok payload e =
     (case payload of
        None \<Rightarrow> False
      | Some d \<Rightarrow> d \<noteq> [] \<and> map_of d ''email'' = Some e)"

text \<open>
  The verify branch. On both success paths the session is marked authenticated before
  \<open>audit\<close> is called, and the run ends in a rerun.
\<close>

definition verify_flow :: "lib \<Rightarrow> env \<Rightarrow> string \<Rightarrow> world \<Rightarrow> run" where
  "verify_flow L E text w =
     (let token_in = strip L text;
          s = session_state w;
          e = email s
      in if e = []
         then \<lparr>after = w, ui = [ErrorRequestFirst], outcome = Finished, attempted = []\<rparr>
         else if token_in = pending_token s
         then
           (case verify_email_token L E token_in default_max_age of
              Inl x \<Rightarrow>
                \<lparr>after = w, ui = [], outcome = Raised x, attempted = [SignaturePath]\<rparr>
            | Inr payload \<Rightarrow>
                if payload_ok payload e
                then
                  (let w1 = w\<lparr>session_state := s\<lparr>authenticated := True\<rparr>\<rparr>
                   in case audit L E ''login_success'' [(''email'', e)] (audit_file w1) of
                        Inl x \<Rightarrow>
                          \<lparr>after = w1, ui = [], outcome = Raised x,
                           attempted = [SignaturePath]\<rparr>
                      | Inr f \<Rightarrow>
                          \<lparr>after = w1\<lparr>audit_file := f\<rparr>, ui = [], outcome = Rerun,
                           attempted = [SignaturePath]\<rparr>)
                else
                  (case audit L E ''login_fail_token''
                          [(''submitted'', token_in), (''email'', e)] (audit_file w) of
                     Inl x \<Rightarrow>
                       \<lparr>after = w, ui = [ErrorTokenInvalid], outcome = Raised x,
                        attempted = [SignaturePath]\<rparr>
                   | Inr f \<Rightarrow>
                       \<lparr>after = w\<lparr>audit_file := f\<rparr>, ui = [ErrorTokenInvalid],
                        outcome = Finished, attempted = [SignaturePath]\<rparr>))
         else
           (case query_user (users w) e of
              Some u \<Rightarrow>
                if totp_verify L (totp_secret u) token_in 1 (now E)
                then
                  (let w1 = w\<lparr>session_state := s\<lparr>authenticated := True\<rparr>\<rparr>
                   in case audit L E ''login_success_totp'' [(''email'', e)] (audit_file w1) of
                        Inl x \<Rightarrow>
                          \<lparr>after = w1, ui = [], outcome = Raised x, attempted = [TotpPath]\<rparr>
                      | Inr f \<Rightarrow>
                          \<lparr>after = w1\<lparr>audit_file := f\<rparr>, ui = [], outcome = Rerun,
                           attempted = [TotpPath]\<rparr>)
                else
                  (case audit L E ''login_fail''
                          [(''submitted'', token_in), (''email'', e)] (audit_file w) of
                     Inl x \<Rightarrow>
                       \<lparr>after = w, ui = [ErrorCodeInvalid], outcome = Raised x,
                        attempted = [TotpPath]\<rparr>
                   | Inr f \<Rightarrow>
                       \<lparr>after = w\<lparr>audit_file := f\<rparr>, ui = [ErrorCodeInvalid],
                        outcome = Finished, attempted = [TotpPath]\<rparr>)
            | None \<Rightarrow>
                \<lparr>after = w, ui = [ErrorUserNotFound], outcome = Finished, attempted = []\<rparr>))"

text \<open>The logout button: \<open>audit\<close> first, then the three session fields are reset.\<close>

definition logout_flow :: "lib \<Rightarrow> env \<Rightarrow> world \<Rightarrow> run" where
  "logout_flow L E w =
     (let e = email (session_state w)
      in case audit L E ''logout'' [(''email'', e)] (audit_file w) of
           Inl x \<Rightarrow> \<lparr>after = w, ui = [Connected e], outcome = Raised x, attempted = []\<rparr>
         | Inr f \<Rightarrow>
             \<lparr>after = w\<lparr>audit_file := f, session_state := initial_session\<rparr>,
              ui = [Connected e], outcome = Stopped, attempted = []\<rparr>)"

text \<open>
  One run of the script. At most one button is pressed in a run. An authenticated
  session sees only the logout button and the script stops there; the two forms are
  reached only by a session that is not authenticated.
\<close>

datatype action = NoAction | ClickLogout | SubmitRequest string | SubmitVerify string

definition script_run :: "lib \<Rightarrow> env \<Rightarrow> action \<Rightarrow> world \<Rightarrow> run" where
  "script_run L E a w =
     (if authenticated (session_state w)
      then (case a of
              ClickLogout \<Rightarrow> logout_flow L E w
            | _ \<Rightarrow> \<lparr>after = w, ui = [Connected (email (session_state w))],
                     outcome = Stopped, attempted = []\<rparr>)
      else (case a of
              SubmitRequest text \<Rightarrow> request_flow L E text w
            | SubmitVerify text \<Rightarrow> verify_flow L E text w
            | _ \<Rightarrow> \<lparr>after = w, ui = [], outcome = Finished, attempted = []\<rparr>))"

text \<open>The worlds a session can be in, starting from the initial session.\<close>

inductive reachable :: "lib \<Rightarrow> world \<Rightarrow> bool" for L :: lib where
  start: "session_state w = initial_session \<Longrightarrow> reachable L w"
| step: "reachable L w \<Longrightarrow> reachable L (after (script_run L E a w))"

section \<open>Properties of a run\<close>

text \<open>A run appended exactly \<open>n\<close> lines to the audit file and changed none before them.\<close>

definition appended :: "nat \<Rightarrow> world \<Rightarrow> world \<Rightarrow> bool" where
  "appended n w w' =
     (length (audit_file w') = length (audit_file w) + n \<and>
      take (length (audit_file w)) (audit_file w') = audit_file w)"

text \<open>
  The credential check of the verify branch on its own: the signature path when the
  submitted text equals the pending token, the one-time code of the user's secret
  otherwise.
\<close>

definition credential_passes :: "lib \<Rightarrow> env \<Rightarrow> string \<Rightarrow> world \<Rightarrow> bool" where
  "credential_passes L E text w =
     (let token_in = strip L text; s = session_state w
      in if token_in = pending_token s
         then (case verify_email_token L E token_in default_max_age of
                 Inr payload \<Rightarrow> payload_ok payload (email s)
               | Inl x \<Rightarrow> False)
         else (case query_user (users w) (email s) of
                 Some u \<Rightarrow> totp_verify L (totp_secret u) token_in 1 (now E)
               | None \<Rightarrow> False))"

text \<open>The line \<open>audit\<close> writes for an event and its details in a run.\<close>

definition audit_entry :: "lib \<Rightarrow> env \<Rightarrow> string \<Rightarrow> dict \<Rightarrow> string" where
  "audit_entry L E ev d =
     audit_line (make_record E ev d) (sign_record L (json_record (make_record E ev d)))"

text \<open>
  Whether the tag of a token text verifies under the process key, and what its body
  decodes to: \<open>None\<close> for a text without a tag part or without a readable issuance
  time, otherwise the issuance time and the payload, if that decodes.
\<close>

definition tag_verifies :: "lib \<Rightarrow> string \<Rightarrow> bool" where
  "tag_verifies L token =
     (case rsplit_dot token of
        None \<Rightarrow> False
      | Some (body, tag) \<Rightarrow> tag = token_tag L (SECRET_KEY L) body)"

definition token_payload :: "lib \<Rightarrow> string \<Rightarrow> (int \<times> dict option) option" where
  "token_payload L token =
     (case rsplit_dot token of
        None \<Rightarrow> None
      | Some (body, tag) \<Rightarrow> decode_payload L body)"

section \<open>An executable instance of the library interface\<close>

text \<open>
  Concrete runs need concrete library functions. This instance is small enough to
  evaluate: both tags are a one-byte checksum in hex, the payload encoding is the
  issuance time in decimal followed by the keys and values, separated by bars, the
  one-time code is six decimal digits computed from the secret and the time step, and
  the string functions are the ASCII ones.
\<close>

definition checksum :: "string \<Rightarrow> nat" where
  "checksum s = sum_list (map of_char s) mod 256"

definition demo_tag :: "string \<Rightarrow> string \<Rightarrow> string" where
  "demo_tag key body =
     [hex_digit (checksum (key @ body) div 16), hex_digit (checksum (key @ body))]"

fun show_nat :: "nat \<Rightarrow> string" where
  "show_nat n = (if n < 10 then [hex_digit n] else show_nat (n div 10) @ [hex_digit (n mod 10)])"

declare show_nat.simps [simp del]

definition digit_value :: "char \<Rightarrow> nat option" where
  "digit_value c = map_of (zip ''0123456789'' [0..<10]) c"

definition parse_nat :: "string \<Rightarrow> nat option" where
  "parse_nat s =
     (if s = [] then None
      else fold (\<lambda>c acc. case (acc, digit_value c) of
                            (Some a, Some d) \<Rightarrow> Some (10 * a + d)
                          | _ \<Rightarrow> None) s (Some 0))"

fun split_bar :: "string \<Rightarrow> string list" where
  "split_bar [] = [[]]"
| "split_bar (c # cs) =
     (if c = CHR ''|'' then [] # split_bar cs
      else (case split_bar cs of
              [] \<Rightarrow> [[c]]
            | x # xs \<Rightarrow> (c # x) # xs))"

fun pairs :: "string list \<Rightarrow> dict option" where
  "pairs [] = Some []"
| "pairs [k] = None"
| "pairs (k # v # rest) = map_option (\<lambda>d. (k, v) # d) (pairs rest)"

definition demo_encode :: "dict \<Rightarrow> int \<Rightarrow> string" where
  "demo_encode obj t = show_nat (nat t) @ concat (map (\<lambda>(k, v). ''|'' @ k @ ''|'' @ v) obj)"

definition demo_decode :: "string \<Rightarrow> (int \<times> dict option) option" where
  "demo_decode s =
     (case split_bar s of
        [] \<Rightarrow> None
      | t # rest \<Rightarrow>
          (case parse_nat t of
             None \<Rightarrow> None
           | Some n \<Rightarrow> Some (int n, pairs rest)))"

definition demo_otp :: "string \<Rightarrow> int \<Rightarrow> string" where
  "demo_otp secret counter =
     (let x = nat ((int (checksum secret) + 7 * counter) mod 1000000)
      in map (\<lambda>p. hex_digit ((x div p) mod 10)) [100000, 10000, 1000, 100, 10, 1])"

definition demo_lib :: lib where
  "demo_lib =
     \<lparr>SECRET_KEY = ''k3y'', PASC_HMAC_KEY = None,
      hmac_sha256_hex = demo_tag,
      token_tag = demo_tag,
      encode_payload = demo_encode,
      decode_payload = demo_decode,
      generate_otp = demo_otp,
      strip = ascii_strip,
      lower = ascii_lower\<rparr>"

text \<open>
  A first run: nothing on file, access is requested for \<open>ana@pasc.example\<close> at time
  1000. A second run 601 seconds later submits the one-time code of that time step.
\<close>

definition demo_env :: env where
  "demo_env =
     \<lparr>now = 1000, utcnow = ''2024-01-01T00:16:40'', random_base32 = ''JBSWY3DPEHPK3PXP'',
      mail_ok = True, sink_ok = True\<rparr>"

definition demo_user :: user where
  "demo_user =
     \<lparr>user_email = ''ana@pasc.example'', totp_secret = ''JBSWY3DPEHPK3PXP'',
      is_active = True, created_at = ''2024-01-01T00:16:40''\<rparr>"

definition demo_token :: string where
  "demo_token = generate_email_token demo_lib demo_env ''ana@pasc.example''"

definition demo_start :: world where
  "demo_start = \<lparr>session_state = initial_session, users = [], audit_file = [], outbox = []\<rparr>"

definition demo_pending :: world where
  "demo_pending =
     after (script_run demo_lib demo_env (SubmitRequest ''  Ana@PASC.example '') demo_start)"

definition demo_logged_in :: world where
  "demo_logged_in =
     after (script_run demo_lib (demo_env\<lparr>now := 1601\<rparr>) (SubmitVerify ''000540'') demo_pending)"

text \<open>
  A session whose pending token was signed under the process key for the same address
  with the purpose \<open>reset\<close>.
\<close>

definition demo_reset_token :: string where
  "demo_reset_token =
     signer_dumps demo_lib [(''email'', ''ana@pasc.example''), (''purpose'', ''reset'')] 1000"

definition demo_pending_reset :: world where
  "demo_pending_reset =
     demo_pending\<lparr>session_state := (session_state demo_pending)\<lparr>pending_token := demo_reset_token\<rparr>\<rparr>"

section \<open>Basic facts\<close>

lemma audit_sink_ok:
  "sink_ok E \<Longrightarrow>
   audit L E ev d file =
     Inr (file @ [audit_line (make_record E ev d) (sign_record L (json_record (make_record E ev d)))])"
  by (simp add: audit_def Let_def)

lemma audit_sink_down: "\<not> sink_ok E \<Longrightarrow> audit L E ev d file = Inl OSError"
  by (simp add: audit_def Let_def)

lemma rsplit_dot_join:
  assumes "CHR ''.'' \<notin> set t"
  shows "rsplit_dot (b @ CHR ''.'' # t) = Some (b, t)"
proof -
  have all: "\<And>c. c \<in> set (rev t) \<Longrightarrow> c \<noteq> CHR ''.''"
    using assms by auto
  have tw: "takeWhile (\<lambda>c. c \<noteq> CHR ''.'') (rev t @ CHR ''.'' # rev b) = rev t"
    by (subst takeWhile_append2) (use all in auto)
  have dw: "dropWhile (\<lambda>c. c \<noteq> CHR ''.'') (rev t @ CHR ''.'' # rev b) = CHR ''.'' # rev b"
    by (subst dropWhile_append2) (use all in auto)
  show ?thesis
    using tw dw by (simp add: rsplit_dot_def)
qed

lemma verify_email_token_cases:
  "(\<exists>p. verify_email_token L E token a = Inr p) \<or>
   verify_email_token L E token a = Inl BadPayload"
  by (auto simp: verify_email_token_def signer_loads_def
           split: sum.splits option.splits prod.splits if_splits)

lemma signer_round_trip:
  assumes "decode_payload L (encode_payload L obj t) = Some (t, Some obj)"
    and "CHR ''.'' \<notin> set (token_tag L (SECRET_KEY L) (encode_payload L obj t))"
    and "0 \<le> t' - t" and "t' - t \<le> a"
  shows "signer_loads L (signer_dumps L obj t) a t' = Inr obj"
  using assms by (simp add: signer_loads_def signer_dumps_def Let_def rsplit_dot_join)

lemma window_one: "[- 1..1::int] = [- 1, 0, 1]"
  by (simp add: upto.simps)

lemma totp_verify_window_one:
  "totp_verify L secret otp 1 t \<longleftrightarrow>
     otp = totp_at L secret t (- 1) \<or> otp = totp_at L secret t 0 \<or> otp = totp_at L secret t 1"
  by (simp add: totp_verify_def window_one)

lemma timecode_shift: "timecode (t + 30 * k) = timecode t + k"
  by (simp add: timecode_def)

text \<open>The library instance on the token and the one-time codes of the waiting session.\<close>

lemma demo_lib_fields:
  "SECRET_KEY demo_lib = ''k3y''"
  "token_tag demo_lib = demo_tag"
  "encode_payload demo_lib = demo_encode"
  "decode_payload demo_lib = demo_decode"
  "generate_otp demo_lib = demo_otp"
  "hmac_sha256_hex demo_lib = demo_tag"
  "strip demo_lib = ascii_strip"
  "lower demo_lib = ascii_lower"
  by (simp_all add: demo_lib_def)

lemma demo_encode_login:
  "demo_encode [(''email'', ''ana@pasc.example''), (''purpose'', ''login'')] 1000 =
     ''1000|email|ana@pasc.example|purpose|login''"
  by (simp add: demo_encode_def show_nat.simps hex_digit_def)

lemma demo_tag_login: "demo_tag ''k3y'' ''1000|email|ana@pasc.example|purpose|login'' = ''28''"
  by (simp add: demo_tag_def checksum_def hex_digit_def)

lemma demo_decode_login:
  "demo_decode ''1000|email|ana@pasc.example|purpose|login'' =
     Some (1000, Some [(''email'', ''ana@pasc.example''), (''purpose'', ''login'')])"
proof -
  have "parse_nat ''1000'' = Some 1000"
    by (simp add: parse_nat_def digit_value_def upt_conv_Cons)
  then show ?thesis
    by (simp add: demo_decode_def)
qed

lemma demo_token_eq: "demo_token = ''1000|email|ana@pasc.example|purpose|login.28''"
  by (simp add: demo_token_def generate_email_token_def signer_dumps_def demo_lib_fields
      demo_env_def demo_encode_login demo_tag_login)

lemma demo_token_split:
  "rsplit_dot ''1000|email|ana@pasc.example|purpose|login.28'' =
     Some (''1000|email|ana@pasc.example|purpose|login'', ''28'')"
  by (simp add: rsplit_dot_def)

lemma demo_otp_steps:
  "demo_otp ''JBSWY3DPEHPK3PXP'' 52 = ''000533''"
  "demo_otp ''JBSWY3DPEHPK3PXP'' 53 = ''000540''"
  "demo_otp ''JBSWY3DPEHPK3PXP'' 54 = ''000547''"
  "demo_otp ''JBSWY3DPEHPK3PXP'' 56 = ''000561''"
  by (simp_all add: demo_otp_def checksum_def hex_digit_def Let_def)

text \<open>The flows, branch by branch.\<close>

lemma audit_eq:
  "audit L E ev d file = (if sink_ok E then Inr (file @ [audit_entry L E ev d]) else Inl OSError)"
  by (simp add: audit_def audit_entry_def Let_def)

lemma verify_flow_no_email:
  assumes "email (session_state w) = []"
  shows "verify_flow L E text w =
           \<lparr>after = w, ui = [ErrorRequestFirst], outcome = Finished, attempted = []\<rparr>"
  using assms by (simp add: verify_flow_def Let_def)

lemma verify_flow_signature_pass:
  assumes "email (session_state w) \<noteq> []"
    and "strip L text = pending_token (session_state w)"
    and "verify_email_token L E (strip L text) default_max_age = Inr p"
    and "payload_ok p (email (session_state w))"
  shows "verify_flow L E text w =
           (if sink_ok E
            then \<lparr>after = w\<lparr>session_state := (session_state w)\<lparr>authenticated := True\<rparr>,
                            audit_file := audit_file w @
                              [audit_entry L E ''login_success''
                                 [(''email'', email (session_state w))]]\<rparr>,
                  ui = [], outcome = Rerun, attempted = [SignaturePath]\<rparr>
            else \<lparr>after = w\<lparr>session_state := (session_state w)\<lparr>authenticated := True\<rparr>\<rparr>,
                  ui = [], outcome = Raised OSError, attempted = [SignaturePath]\<rparr>)"
  using assms by (simp add: verify_flow_def Let_def audit_eq)

lemma verify_flow_signature_fail:
  assumes "email (session_state w) \<noteq> []"
    and "strip L text = pending_token (session_state w)"
    and "verify_email_token L E (strip L text) default_max_age = Inr p"
    and "\<not> payload_ok p (email (session_state w))"
  shows "verify_flow L E text w =
           (if sink_ok E
            then \<lparr>after = w\<lparr>audit_file := audit_file w @
                              [audit_entry L E ''login_fail_token''
                                 [(''submitted'', strip L text),
                                  (''email'', email (session_state w))]]\<rparr>,
                  ui = [ErrorTokenInvalid], outcome = Finished, attempted = [SignaturePath]\<rparr>
            else \<lparr>after = w, ui = [ErrorTokenInvalid], outcome = Raised OSError,
                  attempted = [SignaturePath]\<rparr>)"
  using assms by (simp add: verify_flow_def Let_def audit_eq)

lemma verify_flow_signature_raises:
  assumes "email (session_state w) \<noteq> []"
    and "strip L text = pending_token (session_state w)"
    and "verify_email_token L E (strip L text) default_max_age = Inl x"
  shows "verify_flow L E text w =
           \<lparr>after = w, ui = [], outcome = Raised x, attempted = [SignaturePath]\<rparr>"
  using assms by (simp add: verify_flow_def Let_def)

lemma verify_flow_totp_pass:
  assumes "email (session_state w) \<noteq> []"
    and "strip L text \<noteq> pending_token (session_state w)"
    and "query_user (users w) (email (session_state w)) = Some u"
    and "totp_verify L (totp_secret u) (strip L text) 1 (now E)"
  shows "verify_flow L E text w =
           (if sink_ok E
            then \<lparr>after = w\<lparr>session_state := (session_state w)\<lparr>authenticated := True\<rparr>,
                            audit_file := audit_file w @
                              [audit_entry L E ''login_success_totp''
                                 [(''email'', email (session_state w))]]\<rparr>,
                  ui = [], outcome = Rerun, attempted = [TotpPath]\<rparr>
            else \<lparr>after = w\<lparr>session_state := (session_state w)\<lparr>authenticated := True\<rparr>\<rparr>,
                  ui = [], outcome = Raised OSError, attempted = [TotpPath]\<rparr>)"
  using assms by (simp add: verify_flow_def Let_def audit_eq)

lemma verify_flow_totp_fail:
  assumes "email (session_state w) \<noteq> []"
    and "strip L text \<noteq> pending_token (session_state w)"
    and "query_user (users w) (email (session_state w)) = Some u"
    and "\<not> totp_verify L (totp_secret u) (strip L text) 1 (now E)"
  shows "verify_flow L E text w =
           (if sink_ok E
            then \<lparr>after = w\<lparr>audit_file := audit_file w @
                              [audit_entry L E ''login_fail''
                                 [(''submitted'', strip L text),
                                  (''email'', email (session_state w))]]\<rparr>,
                  ui = [ErrorCodeInvalid], outcome = Finished, attempted = [TotpPath]\<rparr>
            else \<lparr>after = w, ui = [ErrorCodeInvalid], outcome = Raised OSError,
                  attempted = [TotpPath]\<rparr>)"
  using assms by (simp add: verify_flow_def Let_def audit_eq)

lemma verify_flow_no_user:
  assumes "email (session_state w) \<noteq> []"
    and "strip L text \<noteq> pending_token (session_state w)"
    and "query_user (users w) (email (session_state w)) = None"
  shows "verify_flow L E text w =
           \<lparr>after = w, ui = [ErrorUserNotFound], outcome = Finished, attempted = []\<rparr>"
  using assms by (simp add: verify_flow_def Let_def)

text \<open>The users table after the lookup-or-create of the request branch.\<close>

lemma request_flow_eq:
  "request_flow L E text w =
     (let e = lower L (strip L text);
          us = (case query_user (users w) e of
                  None \<Rightarrow> users w @ [\<lparr>user_email = e, totp_secret = random_base32 E,
                                        is_active = True, created_at = utcnow E\<rparr>]
                | Some u \<Rightarrow> users w);
          token = generate_email_token L E e
      in if \<not> mail_ok E
         then \<lparr>after = w\<lparr>users := us\<rparr>, ui = [ErrorSendingMail], outcome = Finished,
               attempted = []\<rparr>
         else if \<not> sink_ok E
         then \<lparr>after = w\<lparr>users := us, outbox := outbox w @ [(e, token)]\<rparr>,
               ui = [ErrorSendingMail], outcome = Finished, attempted = []\<rparr>
         else \<lparr>after = w\<lparr>users := us, outbox := outbox w @ [(e, token)],
                          audit_file := audit_file w @
                            [audit_entry L E ''request_access'' [(''email'', e)]],
                          session_state :=
                            (session_state w)\<lparr>email := e, pending_token := token\<rparr>\<rparr>,
               ui = [InfoCodeSent], outcome = Finished, attempted = []\<rparr>)"
  by (simp add: request_flow_def Let_def send_email_token_def audit_eq)

lemma logout_flow_eq:
  "logout_flow L E w =
     (if sink_ok E
      then \<lparr>after = w\<lparr>audit_file := audit_file w @
                        [audit_entry L E ''logout'' [(''email'', email (session_state w))]],
                      session_state := initial_session\<rparr>,
            ui = [Connected (email (session_state w))], outcome = Stopped, attempted = []\<rparr>
      else \<lparr>after = w, ui = [Connected (email (session_state w))], outcome = Raised OSError,
            attempted = []\<rparr>)"
  by (simp add: logout_flow_def Let_def audit_eq)

lemma query_user_snoc:
  "query_user (us @ [u]) e =
     (case query_user us e of
        Some v \<Rightarrow> Some v
      | None \<Rightarrow> if user_email u = e then Some u else None)"
  by (induction us) (simp_all add: query_user_def)

lemma request_flow_users:
  "users (after (request_flow L E text w)) =
     (case query_user (users w) (lower L (strip L text)) of
        None \<Rightarrow> users w @ [\<lparr>user_email = lower L (strip L text), totp_secret = random_base32 E,
                              is_active = True, created_at = utcnow E\<rparr>]
      | Some u \<Rightarrow> users w)"
  by (simp add: request_flow_eq Let_def)

lemma request_flow_user_found:
  "query_user (users (after (request_flow L E text w))) (lower L (strip L text)) \<noteq> None"
  by (simp add: request_flow_users query_user_snoc split: option.splits)

text \<open>The first run of the example.\<close>

lemma strip_demo:
  "strip demo_lib ''  Ana@PASC.example '' = ''Ana@PASC.example''"
  "strip demo_lib ''000540'' = ''000540''"
  "strip demo_lib ''1000|email|ana@pasc.example|purpose|login.28'' =
     ''1000|email|ana@pasc.example|purpose|login.28''"
  "strip demo_lib ''1000|email|ana@pasc.example|purpose|reset.32'' =
     ''1000|email|ana@pasc.example|purpose|reset.32''"
  by (simp_all add: demo_lib_fields ascii_strip_def is_space_def)

lemma lower_demo: "lower demo_lib ''Ana@PASC.example'' = ''ana@pasc.example''"
  by (simp add: demo_lib_fields ascii_lower_def lower_char_def)

lemma demo_pending_eq:
  "demo_pending =
     \<lparr>session_state =
        \<lparr>email = ''ana@pasc.example'', pending_token = demo_token, authenticated = False\<rparr>,
      users = [demo_user],
      audit_file = [audit_entry demo_lib demo_env ''request_access''
                      [(''email'', ''ana@pasc.example'')]],
      outbox = [(''ana@pasc.example'', demo_token)]\<rparr>"
  by (simp add: demo_pending_def script_run_def demo_start_def initial_session_def
      request_flow_eq Let_def strip_demo lower_demo query_user_def demo_env_def demo_user_def
      demo_token_def)

text \<open>The verify branch takes exactly one of seven ways.\<close>

lemma verify_flow_cases:
  obtains
    (no_email) "email (session_state w) = []"
  | (signature_raises) "email (session_state w) \<noteq> []"
      "strip L inp = pending_token (session_state w)"
      "verify_email_token L E (strip L inp) default_max_age = Inl BadPayload"
  | (signature_pass) p where "email (session_state w) \<noteq> []"
      "strip L inp = pending_token (session_state w)"
      "verify_email_token L E (strip L inp) default_max_age = Inr p"
      "payload_ok p (email (session_state w))"
  | (signature_fail) p where "email (session_state w) \<noteq> []"
      "strip L inp = pending_token (session_state w)"
      "verify_email_token L E (strip L inp) default_max_age = Inr p"
      "\<not> payload_ok p (email (session_state w))"
  | (totp_pass) u where "email (session_state w) \<noteq> []"
      "strip L inp \<noteq> pending_token (session_state w)"
      "query_user (users w) (email (session_state w)) = Some u"
      "totp_verify L (totp_secret u) (strip L inp) 1 (now E)"
  | (totp_fail) u where "email (session_state w) \<noteq> []"
      "strip L inp \<noteq> pending_token (session_state w)"
      "query_user (users w) (email (session_state w)) = Some u"
      "\<not> totp_verify L (totp_secret u) (strip L inp) 1 (now E)"
  | (no_user) "email (session_state w) \<noteq> []"
      "strip L inp \<noteq> pending_token (session_state w)"
      "query_user (users w) (email (session_state w)) = None"
proof -
  have "(\<exists>p. verify_email_token L E (strip L inp) default_max_age = Inr p) \<or>
      verify_email_token L E (strip L inp) default_max_age = Inl BadPayload"
    by (rule verify_email_token_cases)
  then show ?thesis
    using that by (cases "query_user (users w) (email (session_state w))") blast+
qed

lemma payload_ok_iff:
  "payload_ok p e \<longleftrightarrow> (\<exists>d. p = Some d \<and> map_of d ''email'' = Some e)"
  by (cases p) (auto simp: payload_ok_def)

lemma verify_flow_session:
  "session_state (after (verify_flow L E text w)) = session_state w \<or>
   email (session_state w) \<noteq> [] \<and>
   session_state (after (verify_flow L E text w)) = (session_state w)\<lparr>authenticated := True\<rparr>"
proof (cases rule: verify_flow_cases [where w = w and inp = "text" and L = L and E = E])
  case no_email
  then show ?thesis by (simp add: verify_flow_no_email)
next
  case signature_raises
  then show ?thesis by (simp add: verify_flow_signature_raises)
next
  case (signature_pass p)
  then show ?thesis by (simp add: verify_flow_signature_pass)
next
  case (signature_fail p)
  then show ?thesis by (simp add: verify_flow_signature_fail)
next
  case (totp_pass u)
  then show ?thesis by (simp add: verify_flow_totp_pass)
next
  case (totp_fail u)
  then show ?thesis by (simp add: verify_flow_totp_fail)
next
  case no_user
  then show ?thesis by (simp add: verify_flow_no_user)
qed

lemma request_flow_session:
  "session_state (after (request_flow L E text w)) = session_state w \<or>
   session_state (after (request_flow L E text w)) =
     (session_state w)\<lparr>email := lower L (strip L text),
                        pending_token := generate_email_token L E (lower L (strip L text))\<rparr>"
  by (simp add: request_flow_eq Let_def)

lemma script_run_keeps_email:
  assumes "authenticated (session_state w) \<longrightarrow> email (session_state w) \<noteq> []"
  shows "authenticated (session_state (after (script_run L E a w))) \<longrightarrow>
         email (session_state (after (script_run L E a w))) \<noteq> []"
proof (cases "authenticated (session_state w)")
  case True
  then show ?thesis
    using assms
    by (cases a) (simp_all add: script_run_def logout_flow_eq initial_session_def)
next
  case False
  show ?thesis
  proof (cases a)
    case (SubmitRequest t)
    then show ?thesis
      using False request_flow_session [of L E t w] by (auto simp: script_run_def)
  next
    case (SubmitVerify t)
    then show ?thesis
      using False verify_flow_session [of L E t w] by (auto simp: script_run_def)
  qed (use False in \<open>simp_all add: script_run_def\<close>)
qed

lemma reachable_keeps_email:
  "reachable L w \<Longrightarrow> authenticated (session_state w) \<longrightarrow> email (session_state w) \<noteq> []"
proof (induction rule: reachable.induct)
  case (start w)
  then show ?case by (simp add: initial_session_def)
next
  case (step w E a)
  from step.IH show ?case by (rule script_run_keeps_email)
qed

text \<open>The later runs of the example.\<close>

lemma demo_reset_parts:
  "demo_encode [(''email'', ''ana@pasc.example''), (''purpose'', ''reset'')] 1000 =
     ''1000|email|ana@pasc.example|purpose|reset''"
  "demo_tag ''k3y'' ''1000|email|ana@pasc.example|purpose|reset'' = ''32''"
  by (simp_all add: demo_encode_def show_nat.simps demo_tag_def checksum_def hex_digit_def)

lemma demo_decode_reset:
  "demo_decode ''1000|email|ana@pasc.example|purpose|reset'' =
     Some (1000, Some [(''email'', ''ana@pasc.example''), (''purpose'', ''reset'')])"
proof -
  have "parse_nat ''1000'' = Some 1000"
    by (simp add: parse_nat_def digit_value_def upt_conv_Cons)
  then show ?thesis
    by (simp add: demo_decode_def)
qed

lemma demo_reset_token_eq:
  "demo_reset_token = ''1000|email|ana@pasc.example|purpose|reset.32''"
  by (simp add: demo_reset_token_def signer_dumps_def demo_lib_fields demo_reset_parts)

lemma demo_reset_verifies:
  "verify_email_token demo_lib (demo_env\<lparr>now := 1100\<rparr>) demo_reset_token default_max_age =
     Inr (Some [(''email'', ''ana@pasc.example''), (''purpose'', ''reset'')])"
proof -
  have "signer_loads demo_lib
      (signer_dumps demo_lib [(''email'', ''ana@pasc.example''), (''purpose'', ''reset'')] 1000)
      600 1100 = Inr [(''email'', ''ana@pasc.example''), (''purpose'', ''reset'')]"
    by (rule signer_round_trip)
      (simp_all add: demo_lib_fields demo_reset_parts demo_decode_reset)
  then show ?thesis
    by (simp add: verify_email_token_def demo_reset_token_def default_max_age_def)
qed

lemma demo_login_expired:
  "verify_email_token demo_lib (demo_env\<lparr>now := 1601\<rparr>) demo_token default_max_age = Inr None"
  by (simp add: verify_email_token_def signer_loads_def demo_token_eq demo_token_split
      demo_lib_fields demo_tag_login demo_decode_login default_max_age_def)

lemma demo_totp_current: "totp_verify demo_lib ''JBSWY3DPEHPK3PXP'' ''000540'' 1 1601"
  by (simp add: totp_verify_window_one totp_at_def timecode_def demo_lib_fields demo_otp_steps)

lemma demo_pending_fields:
  "session_state demo_pending =
     \<lparr>email = ''ana@pasc.example'', pending_token = demo_token, authenticated = False\<rparr>"
  "users demo_pending = [demo_user]"
  "audit_file demo_pending =
     [audit_entry demo_lib demo_env ''request_access'' [(''email'', ''ana@pasc.example'')]]"
  by (simp_all add: demo_pending_eq)

lemma demo_pending_user:
  "query_user (users demo_pending) ''ana@pasc.example'' = Some demo_user"
  "totp_secret demo_user = ''JBSWY3DPEHPK3PXP''"
  by (simp_all add: demo_pending_fields query_user_def demo_user_def)

lemma demo_code_is_not_token: "strip demo_lib ''000540'' \<noteq> pending_token (session_state demo_pending)"
  by (simp add: strip_demo demo_pending_fields demo_token_eq)

lemma demo_verify_totp:
  assumes "now E = 1601"
  shows "verify_flow demo_lib E ''000540'' demo_pending =
     (if sink_ok E
      then \<lparr>after = demo_pending\<lparr>session_state :=
                        (session_state demo_pending)\<lparr>authenticated := True\<rparr>,
                      audit_file := audit_file demo_pending @
                        [audit_entry demo_lib E ''login_success_totp''
                           [(''email'', ''ana@pasc.example'')]]\<rparr>,
            ui = [], outcome = Rerun, attempted = [TotpPath]\<rparr>
      else \<lparr>after = demo_pending\<lparr>session_state :=
                        (session_state demo_pending)\<lparr>authenticated := True\<rparr>\<rparr>,
            ui = [], outcome = Raised OSError, attempted = [TotpPath]\<rparr>)"
proof -
  have e: "email (session_state demo_pending) \<noteq> []"
    by (simp add: demo_pending_fields)
  have u: "query_user (users demo_pending) (email (session_state demo_pending)) = Some demo_user"
    by (simp add: demo_pending_fields query_user_def demo_user_def)
  have t: "totp_verify demo_lib (totp_secret demo_user) (strip demo_lib ''000540'') 1 (now E)"
    by (simp add: assms demo_pending_user strip_demo demo_totp_current)
  show ?thesis
    using verify_flow_totp_pass [OF e demo_code_is_not_token u t]
    by (simp add: demo_pending_fields)
qed

lemma demo_logged_in_session:
  "session_state demo_logged_in =
     \<lparr>email = ''ana@pasc.example'', pending_token = demo_token, authenticated = True\<rparr>"
proof -
  have "now (demo_env\<lparr>now := 1601\<rparr>) = 1601" and "sink_ok (demo_env\<lparr>now := 1601\<rparr>)"
    by (simp_all add: demo_env_def)
  then show ?thesis
    by (simp add: demo_logged_in_def script_run_def demo_pending_fields demo_verify_totp)
qed

lemma demo_logged_in_reachable: "reachable demo_lib demo_logged_in"
  unfolding demo_logged_in_def demo_pending_def
  by (intro reachable.step reachable.start) (simp add: demo_start_def)

lemma demo_expired_run:
  "email (session_state demo_pending) \<noteq> []"
  "strip demo_lib ''1000|email|ana@pasc.example|purpose|login.28'' =
     pending_token (session_state demo_pending)"
  "verify_email_token demo_lib (demo_env\<lparr>now := 1601\<rparr>)
     (strip demo_lib ''1000|email|ana@pasc.example|purpose|login.28'') default_max_age = Inr None"
  using demo_login_expired by (simp_all add: demo_pending_fields strip_demo demo_token_eq)

lemma demo_credential_passes:
  assumes "now E = 1601"
  shows "credential_passes demo_lib E ''000540'' demo_pending"
  using demo_code_is_not_token demo_totp_current assms
  by (simp add: credential_passes_def Let_def strip_demo demo_pending_fields query_user_def
      demo_user_def)



















lemma demo_token_parts:
  "tag_verifies demo_lib demo_token"
  "token_payload demo_lib demo_token =
     Some (1000, Some [(''email'', ''ana@pasc.example''), (''purpose'', ''login'')])"
  by (simp_all add: tag_verifies_def token_payload_def demo_token_eq demo_token_split
      demo_lib_fields demo_tag_login demo_decode_login)

lemma demo_truncated_raw:
  "rsplit_dot ''1000|email.5c'' = Some (''1000|email'', ''5c'')"
  "demo_decode ''1000|email'' = Some (1000, None)"
  "demo_tag ''k3y'' ''1000|email'' = ''5c''"
proof -
  show "rsplit_dot ''1000|email.5c'' = Some (''1000|email'', ''5c'')"
    by (simp add: rsplit_dot_def)
  have "parse_nat ''1000'' = Some 1000"
    by (simp add: parse_nat_def digit_value_def upt_conv_Cons)
  then show "demo_decode ''1000|email'' = Some (1000, None)"
    by (simp add: demo_decode_def)
  show "demo_tag ''k3y'' ''1000|email'' = ''5c''"
    by (simp add: demo_tag_def checksum_def hex_digit_def)
qed

lemma demo_truncated_parts:
  "tag_verifies demo_lib ''1000|email.5c''"
  "token_payload demo_lib ''1000|email.5c'' = Some (1000, None)"
  by (simp_all add: tag_verifies_def token_payload_def demo_lib_fields demo_truncated_raw)

section \<open>The audit tag\<close>




section \<open>Email tokens\<close>

text \<open>
  Claim C3, as amended. \<open>verify_email_token\<close> returns \<open>None\<close> when the tag does not
  verify, when the text has no tag part or no readable issuance time, and when the age
  (clock minus issuance time) exceeds the maximal age or is negative. It returns the
  decoded payload when the tag verifies, the age lies between 0 and the maximal age and
  the payload decodes. It raises only for a text whose tag verifies, whose age lies in
  that range and whose payload does not decode. The default maximal age is 600 seconds.
\<close>

theorem verify_email_token_fails_closed:
  "(\<not> tag_verifies L token \<longrightarrow> verify_email_token L E token a = Inr None) \<and>
   (token_payload L token = None \<longrightarrow> verify_email_token L E token a = Inr None) \<and>
   (\<forall>issued p. token_payload L token = Some (issued, p) \<and>
       (now E - issued > a \<or> now E - issued < 0) \<longrightarrow>
       verify_email_token L E token a = Inr None) \<and>
   (\<forall>issued obj. tag_verifies L token \<and> token_payload L token = Some (issued, Some obj) \<and>
       0 \<le> now E - issued \<and> now E - issued \<le> a \<longrightarrow>
       verify_email_token L E token a = Inr (Some obj)) \<and>
   (\<forall>x. verify_email_token L E token a = Inl x \<longrightarrow>
       x = BadPayload \<and> tag_verifies L token \<and>
       (\<exists>issued. token_payload L token = Some (issued, None) \<and>
          0 \<le> now E - issued \<and> now E - issued \<le> a)) \<and>
   default_max_age = 600"
  by (auto simp: verify_email_token_def signer_loads_def tag_verifies_def token_payload_def
        default_max_age_def split: option.splits prod.splits if_splits)

text \<open>
  The token of the waiting session 600 and 601 seconds after issuance and one second
  before it, the same body under another tag, and a text that is no token.
\<close>

theorem verify_email_token_fails_closed_witness:
  "tag_verifies demo_lib demo_token \<and>
   token_payload demo_lib demo_token =
     Some (1000, Some [(''email'', ''ana@pasc.example''), (''purpose'', ''login'')]) \<and>
   verify_email_token demo_lib (demo_env\<lparr>now := 1600\<rparr>) demo_token 600 =
     Inr (Some [(''email'', ''ana@pasc.example''), (''purpose'', ''login'')]) \<and>
   verify_email_token demo_lib (demo_env\<lparr>now := 1601\<rparr>) demo_token 600 = Inr None \<and>
   verify_email_token demo_lib (demo_env\<lparr>now := 999\<rparr>) demo_token 600 = Inr None \<and>
   \<not> tag_verifies demo_lib ''1000|email|ana@pasc.example|purpose|login.29'' \<and>
   verify_email_token demo_lib demo_env ''1000|email|ana@pasc.example|purpose|login.29'' 600 =
     Inr None \<and>
   token_payload demo_lib ''not a token'' = None \<and>
   verify_email_token demo_lib demo_env ''not a token'' 600 = Inr None"
proof -
  have forged: "\<not> tag_verifies demo_lib ''1000|email|ana@pasc.example|purpose|login.29''"
    by (simp add: tag_verifies_def rsplit_dot_def demo_lib_fields demo_tag_login)
  have garbage: "token_payload demo_lib ''not a token'' = None"
    by (simp add: token_payload_def rsplit_dot_def)
  have fresh: "0 \<le> now (demo_env\<lparr>now := 1600\<rparr>) - 1000"
      "now (demo_env\<lparr>now := 1600\<rparr>) - 1000 \<le> (600::int)"
    and late: "now (demo_env\<lparr>now := 1601\<rparr>) - 1000 > (600::int)"
    and early: "now (demo_env\<lparr>now := 999\<rparr>) - 1000 < (0::int)"
    by simp_all
  note a = verify_email_token_fails_closed [where L = demo_lib and token = demo_token
      and E = "demo_env\<lparr>now := 1600\<rparr>" and a = 600]
  note b = verify_email_token_fails_closed [where L = demo_lib and token = demo_token
      and E = "demo_env\<lparr>now := 1601\<rparr>" and a = 600]
  note c = verify_email_token_fails_closed [where L = demo_lib and token = demo_token
      and E = "demo_env\<lparr>now := 999\<rparr>" and a = 600]
  note d = verify_email_token_fails_closed [where L = demo_lib
      and token = "''1000|email|ana@pasc.example|purpose|login.29''" and E = demo_env and a = 600]
  note e = verify_email_token_fails_closed [where L = demo_lib and token = "''not a token''"
      and E = demo_env and a = 600]
  have 1: "verify_email_token demo_lib (demo_env\<lparr>now := 1600\<rparr>) demo_token 600 =
     Inr (Some [(''email'', ''ana@pasc.example''), (''purpose'', ''login'')])"
    using a demo_token_parts fresh by blast
  have 2: "verify_email_token demo_lib (demo_env\<lparr>now := 1601\<rparr>) demo_token 600 = Inr None"
    using b demo_token_parts late by blast
  have 3: "verify_email_token demo_lib (demo_env\<lparr>now := 999\<rparr>) demo_token 600 = Inr None"
    using c demo_token_parts early by blast
  have 4: "verify_email_token demo_lib demo_env
      ''1000|email|ana@pasc.example|purpose|login.29'' 600 = Inr None"
    using d forged by blast
  have 5: "verify_email_token demo_lib demo_env ''not a token'' 600 = Inr None"
    using e garbage by blast
  show ?thesis
    using demo_token_parts forged garbage 1 2 3 4 5 by blast
qed

text \<open>
  The claim as stated fails twice: a text with a verifying tag and a payload that does
  not decode leaves the function with \<open>BadPayload\<close>, and a token read one second before
  its issuance time is refused though its tag verifies and its age does not exceed the
  maximal age.
\<close>

theorem verify_email_token_raises_counterexample:
  "tag_verifies demo_lib ''1000|email.5c'' \<and>
   token_payload demo_lib ''1000|email.5c'' = Some (1000, None) \<and>
   verify_email_token demo_lib demo_env ''1000|email.5c'' 600 = Inl BadPayload \<and>
   tag_verifies demo_lib demo_token \<and>
   token_payload demo_lib demo_token =
     Some (1000, Some [(''email'', ''ana@pasc.example''), (''purpose'', ''login'')]) \<and>
   now (demo_env\<lparr>now := 999\<rparr>) - 1000 \<le> 600 \<and>
   verify_email_token demo_lib (demo_env\<lparr>now := 999\<rparr>) demo_token 600 = Inr None"
proof -
  have raised: "verify_email_token demo_lib demo_env ''1000|email.5c'' 600 = Inl BadPayload"
    by (simp add: verify_email_token_def signer_loads_def demo_lib_fields demo_truncated_raw
        demo_env_def)
  have early: "verify_email_token demo_lib (demo_env\<lparr>now := 999\<rparr>) demo_token 600 = Inr None"
    by (simp add: verify_email_token_def signer_loads_def demo_lib_fields demo_token_eq
        demo_token_split demo_tag_login demo_decode_login)
  show ?thesis
    using demo_truncated_parts demo_token_parts raised early by simp
qed

text \<open>
  Claim C6. A token issued for an email address and a purpose verifies at the time of
  issuance to exactly that payload, for every maximal age that is not negative, when
  the library's payload encoding decodes to what was encoded and its tag holds no dot;
  \<open>generate_email_token\<close> issues the token of the address with purpose \<open>login\<close>.
\<close>

theorem email_token_round_trip:
  assumes "decode_payload L (encode_payload L [(''email'', e), (''purpose'', p)] (now E)) =
             Some (now E, Some [(''email'', e), (''purpose'', p)])"
    and "CHR ''.'' \<notin> set (token_tag L (SECRET_KEY L)
             (encode_payload L [(''email'', e), (''purpose'', p)] (now E)))"
    and "0 \<le> a"
  shows "verify_email_token L E (signer_dumps L [(''email'', e), (''purpose'', p)] (now E)) a =
           Inr (Some [(''email'', e), (''purpose'', p)])
         \<and> generate_email_token L E e =
             signer_dumps L [(''email'', e), (''purpose'', ''login'')] (now E)"
proof -
  have "signer_loads L (signer_dumps L [(''email'', e), (''purpose'', p)] (now E)) a (now E) =
      Inr [(''email'', e), (''purpose'', p)]"
    using assms(1,2) by (rule signer_round_trip) (use assms(3) in simp_all)
  then show ?thesis
    by (simp add: verify_email_token_def generate_email_token_def)
qed

theorem email_token_round_trip_witness:
  "decode_payload demo_lib
     (encode_payload demo_lib [(''email'', ''ana@pasc.example''), (''purpose'', ''login'')]
        (now demo_env)) =
     Some (now demo_env, Some [(''email'', ''ana@pasc.example''), (''purpose'', ''login'')]) \<and>
   CHR ''.'' \<notin> set (token_tag demo_lib (SECRET_KEY demo_lib)
     (encode_payload demo_lib [(''email'', ''ana@pasc.example''), (''purpose'', ''login'')]
        (now demo_env))) \<and>
   (0::int) \<le> 600 \<and>
   verify_email_token demo_lib demo_env
     (generate_email_token demo_lib demo_env ''ana@pasc.example'') 600 =
     Inr (Some [(''email'', ''ana@pasc.example''), (''purpose'', ''login'')])"
proof -
  have t: "now demo_env = 1000"
    by (simp add: demo_env_def)
  have h1: "decode_payload demo_lib
     (encode_payload demo_lib [(''email'', ''ana@pasc.example''), (''purpose'', ''login'')]
        (now demo_env)) =
     Some (now demo_env, Some [(''email'', ''ana@pasc.example''), (''purpose'', ''login'')])"
    by (simp add: t demo_lib_fields demo_encode_login demo_decode_login)
  have h2: "CHR ''.'' \<notin> set (token_tag demo_lib (SECRET_KEY demo_lib)
     (encode_payload demo_lib [(''email'', ''ana@pasc.example''), (''purpose'', ''login'')]
        (now demo_env)))"
    by (simp add: t demo_lib_fields demo_encode_login demo_tag_login)
  have h3: "(0::int) \<le> 600"
    by simp
  show ?thesis
    using h1 h2 h3 email_token_round_trip [OF h1 h2 h3] by simp
qed

section \<open>One-time codes\<close>

text \<open>
  Claim C7. For every secret, verification with window 1 accepts the code of the
  current 30-second step, of the step before and of the step after; a code that is the
  code of the step three steps later or earlier (the current code 90 seconds away) and
  is none of the three codes of the window is rejected.
\<close>

theorem totp_window_one:
  "totp_verify L secret (totp_at L secret t 0) 1 t \<and>
   totp_verify L secret (totp_at L secret t (- 1)) 1 t \<and>
   totp_verify L secret (totp_at L secret t 1) 1 t \<and>
   ((code = totp_at L secret (t + 90) 0 \<or> code = totp_at L secret (t - 90) 0) \<and>
    code \<noteq> totp_at L secret t (- 1) \<and> code \<noteq> totp_at L secret t 0 \<and>
    code \<noteq> totp_at L secret t 1 \<longrightarrow> \<not> totp_verify L secret code 1 t) \<and>
   totp_at L secret (t + 90) 0 = generate_otp L secret (t div 30 + 3) \<and>
   totp_at L secret (t - 90) 0 = generate_otp L secret (t div 30 - 3) \<and>
   totp_at L secret t 0 = generate_otp L secret (t div 30)"
proof -
  have up: "totp_at L secret (t + 90) 0 = generate_otp L secret (t div 30 + 3)"
    using timecode_shift [of t 3] by (simp add: totp_at_def timecode_def)
  have down: "totp_at L secret (t - 90) 0 = generate_otp L secret (t div 30 - 3)"
    using timecode_shift [of t "- 3"] by (simp add: totp_at_def timecode_def)
  show ?thesis
    using up down by (simp add: totp_verify_window_one) (simp add: totp_at_def timecode_def)
qed

theorem totp_window_one_witness:
  "totp_verify demo_lib ''JBSWY3DPEHPK3PXP'' ''000540'' 1 1601 \<and>
   ''000561'' = totp_at demo_lib ''JBSWY3DPEHPK3PXP'' (1601 + 90) 0 \<and>
   ''000561'' \<noteq> totp_at demo_lib ''JBSWY3DPEHPK3PXP'' 1601 (- 1) \<and>
   ''000561'' \<noteq> totp_at demo_lib ''JBSWY3DPEHPK3PXP'' 1601 0 \<and>
   ''000561'' \<noteq> totp_at demo_lib ''JBSWY3DPEHPK3PXP'' 1601 1 \<and>
   \<not> totp_verify demo_lib ''JBSWY3DPEHPK3PXP'' ''000561'' 1 1601"
proof -
  have cur: "totp_at demo_lib ''JBSWY3DPEHPK3PXP'' 1601 0 = ''000540''"
    and prev: "totp_at demo_lib ''JBSWY3DPEHPK3PXP'' 1601 (- 1) = ''000533''"
    and nxt: "totp_at demo_lib ''JBSWY3DPEHPK3PXP'' 1601 1 = ''000547''"
    and far: "totp_at demo_lib ''JBSWY3DPEHPK3PXP'' (1601 + 90) 0 = ''000561''"
    by (simp_all add: totp_at_def timecode_def demo_lib_fields demo_otp_steps)
  have "totp_verify demo_lib ''JBSWY3DPEHPK3PXP''
      (totp_at demo_lib ''JBSWY3DPEHPK3PXP'' 1601 0) 1 1601"
    using totp_window_one [of demo_lib "''JBSWY3DPEHPK3PXP''" 1601 "''000561''"] by blast
  then have inside: "totp_verify demo_lib ''JBSWY3DPEHPK3PXP'' ''000540'' 1 1601"
    by (simp only: cur)
  have h1: "''000561'' = totp_at demo_lib ''JBSWY3DPEHPK3PXP'' (1601 + 90) 0"
    and h2: "''000561'' \<noteq> totp_at demo_lib ''JBSWY3DPEHPK3PXP'' 1601 (- 1)"
    and h3: "''000561'' \<noteq> totp_at demo_lib ''JBSWY3DPEHPK3PXP'' 1601 0"
    and h4: "''000561'' \<noteq> totp_at demo_lib ''JBSWY3DPEHPK3PXP'' 1601 1"
    by (simp_all only: cur prev nxt far) simp_all
  have outside: "\<not> totp_verify demo_lib ''JBSWY3DPEHPK3PXP'' ''000561'' 1 1601"
    using totp_window_one [of demo_lib "''JBSWY3DPEHPK3PXP''" 1601 "''000561''"] h1 h2 h3 h4
    by blast
  show ?thesis
    using inside h1 h2 h3 h4 outside by blast
qed

section \<open>Requesting access\<close>

text \<open>
  Claim C5. When the mail transport fails during a request, the session (its email, its
  pending token, its authenticated flag) is left as it was and the run shows the mail
  error; nothing is appended to the audit file or handed to the transport. The user row
  created for an unseen address stays in the table, and a later request for the same
  text, whatever that run reads from outside, finds the row and leaves the table as it
  is.
\<close>

theorem delivery_failure_keeps_session:
  assumes "\<not> mail_ok E"
  shows "session_state (after (request_flow L E inp w)) = session_state w \<and>
         ui (request_flow L E inp w) = [ErrorSendingMail] \<and>
         audit_file (after (request_flow L E inp w)) = audit_file w \<and>
         outbox (after (request_flow L E inp w)) = outbox w \<and>
         (query_user (users w) (lower L (strip L inp)) = None \<longrightarrow>
            users (after (request_flow L E inp w)) =
              users w @ [\<lparr>user_email = lower L (strip L inp), totp_secret = random_base32 E,
                           is_active = True, created_at = utcnow E\<rparr>]) \<and>
         query_user (users (after (request_flow L E inp w))) (lower L (strip L inp)) \<noteq> None \<and>
         users (after (request_flow L E' inp (after (request_flow L E inp w)))) =
           users (after (request_flow L E inp w))"
proof -
  have retry: "users (after (request_flow L E' inp (after (request_flow L E inp w)))) =
      users (after (request_flow L E inp w))"
    using request_flow_user_found [of L E inp w]
    by (subst request_flow_users) (auto split: option.splits)
  have first: "query_user (users w) (lower L (strip L inp)) = None \<longrightarrow>
      users (after (request_flow L E inp w)) =
        users w @ [\<lparr>user_email = lower L (strip L inp), totp_secret = random_base32 E,
                     is_active = True, created_at = utcnow E\<rparr>]"
    by (simp add: request_flow_users)
  show ?thesis
    using assms retry first request_flow_user_found [of L E inp w]
    by (simp add: request_flow_eq Let_def)
qed

text \<open>
  A first request whose mail fails, then a retry that would draw another secret: the
  table holds the one row with the first secret.
\<close>

theorem delivery_failure_keeps_session_witness:
  "\<not> mail_ok (demo_env\<lparr>mail_ok := False\<rparr>) \<and>
   session_state (after (request_flow demo_lib (demo_env\<lparr>mail_ok := False\<rparr>)
     ''  Ana@PASC.example '' demo_start)) = initial_session \<and>
   ui (request_flow demo_lib (demo_env\<lparr>mail_ok := False\<rparr>) ''  Ana@PASC.example '' demo_start) =
     [ErrorSendingMail] \<and>
   query_user (users demo_start) (lower demo_lib (strip demo_lib ''  Ana@PASC.example '')) = None \<and>
   users (after (request_flow demo_lib (demo_env\<lparr>mail_ok := False\<rparr>)
     ''  Ana@PASC.example '' demo_start)) = [demo_user] \<and>
   users (after (request_flow demo_lib (demo_env\<lparr>random_base32 := ''ANOTHERSECRET''\<rparr>)
     ''  Ana@PASC.example ''
     (after (request_flow demo_lib (demo_env\<lparr>mail_ok := False\<rparr>)
        ''  Ana@PASC.example '' demo_start)))) = [demo_user]"
proof -
  have down: "\<not> mail_ok (demo_env\<lparr>mail_ok := False\<rparr>)"
    by simp
  have unseen: "query_user (users demo_start) (lower demo_lib (strip demo_lib ''  Ana@PASC.example '')) = None"
    by (simp add: demo_start_def query_user_def)
  note inst = delivery_failure_keeps_session [OF down, where L = demo_lib
      and inp = "''  Ana@PASC.example ''" and w = demo_start
      and E' = "demo_env\<lparr>random_base32 := ''ANOTHERSECRET''\<rparr>"]
  show ?thesis
    using down unseen inst
    by (simp add: demo_start_def demo_env_def demo_user_def strip_demo lower_demo)
qed

section \<open>Verifying\<close>

text \<open>
  Claim C9. On the signature path a session that is not yet authenticated is accepted
  exactly when the pending token verifies (its tag verifies and it has not expired) and
  the decoded payload's \<open>email\<close> entry equals the session's email. The \<open>purpose\<close>
  entry takes no part: a payload with the session's email and any purpose \<open>q\<close> is
  accepted.
\<close>

theorem signature_path_ignores_purpose:
  assumes "email (session_state w) \<noteq> []"
    and "strip L inp = pending_token (session_state w)"
    and "\<not> authenticated (session_state w)"
  shows "(authenticated (session_state (after (verify_flow L E inp w))) \<longleftrightarrow>
            (\<exists>d. verify_email_token L E (strip L inp) default_max_age = Inr (Some d) \<and>
                 map_of d ''email'' = Some (email (session_state w)))) \<and>
         (\<forall>q. verify_email_token L E (strip L inp) default_max_age =
                 Inr (Some [(''email'', email (session_state w)), (''purpose'', q)]) \<longrightarrow>
              authenticated (session_state (after (verify_flow L E inp w))) \<and>
              attempted (verify_flow L E inp w) = [SignaturePath])"
proof -
  consider (returns) p where "verify_email_token L E (strip L inp) default_max_age = Inr p"
    | (raises) "verify_email_token L E (strip L inp) default_max_age = Inl BadPayload"
    using verify_email_token_cases by blast
  then show ?thesis
  proof cases
    case (returns p)
    show ?thesis
    proof (cases "payload_ok p (email (session_state w))")
      case True
      then show ?thesis
        using assms returns verify_flow_signature_pass [OF assms(1,2) returns True]
        by (auto simp: payload_ok_iff)
    next
      case False
      then show ?thesis
        using assms returns verify_flow_signature_fail [OF assms(1,2) returns False]
        by (auto simp: payload_ok_iff)
    qed
  next
    case raises
    then show ?thesis
      using assms verify_flow_signature_raises [OF assms(1,2) raises] by simp
  qed
qed

text \<open>A session whose pending token carries the purpose \<open>reset\<close> is accepted.\<close>

theorem signature_path_ignores_purpose_witness:
  "email (session_state demo_pending_reset) \<noteq> [] \<and>
   strip demo_lib ''1000|email|ana@pasc.example|purpose|reset.32'' =
     pending_token (session_state demo_pending_reset) \<and>
   \<not> authenticated (session_state demo_pending_reset) \<and>
   verify_email_token demo_lib (demo_env\<lparr>now := 1100\<rparr>)
     (strip demo_lib ''1000|email|ana@pasc.example|purpose|reset.32'') default_max_age =
     Inr (Some [(''email'', email (session_state demo_pending_reset)), (''purpose'', ''reset'')]) \<and>
   authenticated (session_state (after (verify_flow demo_lib (demo_env\<lparr>now := 1100\<rparr>)
     ''1000|email|ana@pasc.example|purpose|reset.32'' demo_pending_reset)))"
proof -
  have s: "session_state demo_pending_reset =
      \<lparr>email = ''ana@pasc.example'', pending_token = demo_reset_token, authenticated = False\<rparr>"
    by (simp add: demo_pending_reset_def demo_pending_fields)
  have h1: "email (session_state demo_pending_reset) \<noteq> []"
    and h2: "strip demo_lib ''1000|email|ana@pasc.example|purpose|reset.32'' =
      pending_token (session_state demo_pending_reset)"
    and h3: "\<not> authenticated (session_state demo_pending_reset)"
    by (simp_all add: s strip_demo demo_reset_token_eq)
  have h4: "verify_email_token demo_lib (demo_env\<lparr>now := 1100\<rparr>)
     (strip demo_lib ''1000|email|ana@pasc.example|purpose|reset.32'') default_max_age =
     Inr (Some [(''email'', email (session_state demo_pending_reset)), (''purpose'', ''reset'')])"
    using demo_reset_verifies by (simp add: s strip_demo demo_reset_token_eq)
  show ?thesis
    using h1 h2 h3 h4
      signature_path_ignores_purpose [OF h1 h2 h3, where E = "demo_env\<lparr>now := 1100\<rparr>"]
    by blast
qed

text \<open>
  Claim C2, as amended. In a verify call exactly one path is attempted: the signature
  path when an email is on file and the submitted text equals the pending token, the
  one-time code only when the text differs from the pending token and the user row is
  found. When the text equals the pending token and the token does not verify, the
  call is reported as a failure (event \<open>login_fail_token\<close>) with the signature path as
  the only check made and the session as it was.
\<close>

theorem totp_attempted_only_on_mismatch:
  "(TotpPath \<in> set (attempted (verify_flow L E inp w)) \<longleftrightarrow>
      email (session_state w) \<noteq> [] \<and> strip L inp \<noteq> pending_token (session_state w) \<and>
      query_user (users w) (email (session_state w)) \<noteq> None) \<and>
   (SignaturePath \<in> set (attempted (verify_flow L E inp w)) \<longleftrightarrow>
      email (session_state w) \<noteq> [] \<and> strip L inp = pending_token (session_state w)) \<and>
   (email (session_state w) \<noteq> [] \<and> strip L inp = pending_token (session_state w) \<and>
    verify_email_token L E (strip L inp) default_max_age = Inr None \<longrightarrow>
      attempted (verify_flow L E inp w) = [SignaturePath] \<and>
      ui (verify_flow L E inp w) = [ErrorTokenInvalid] \<and>
      outcome (verify_flow L E inp w) = (if sink_ok E then Finished else Raised OSError) \<and>
      session_state (after (verify_flow L E inp w)) = session_state w \<and>
      audit_file (after (verify_flow L E inp w)) =
        (if sink_ok E
         then audit_file w @
           [audit_entry L E ''login_fail_token''
              [(''submitted'', strip L inp), (''email'', email (session_state w))]]
         else audit_file w))"
proof (cases rule: verify_flow_cases [where w = w and inp = inp and L = L and E = E])
  case no_email
  then show ?thesis by (simp add: verify_flow_no_email)
next
  case signature_raises
  then show ?thesis
    using verify_flow_signature_raises [OF signature_raises] by simp
next
  case (signature_pass p)
  then show ?thesis
    using verify_flow_signature_pass [OF signature_pass] by (auto simp: payload_ok_iff)
next
  case (signature_fail p)
  then show ?thesis
    using verify_flow_signature_fail [OF signature_fail] by simp
next
  case (totp_pass u)
  then show ?thesis
    using verify_flow_totp_pass [OF totp_pass] by simp
next
  case (totp_fail u)
  then show ?thesis
    using verify_flow_totp_fail [OF totp_fail] by simp
next
  case no_user
  then show ?thesis
    using verify_flow_no_user [OF no_user] by simp
qed

theorem totp_attempted_only_on_mismatch_witness:
  "email (session_state demo_pending) \<noteq> [] \<and>
   strip demo_lib ''1000|email|ana@pasc.example|purpose|login.28'' =
     pending_token (session_state demo_pending) \<and>
   verify_email_token demo_lib (demo_env\<lparr>now := 1601\<rparr>)
     (strip demo_lib ''1000|email|ana@pasc.example|purpose|login.28'') default_max_age = Inr None \<and>
   attempted (verify_flow demo_lib (demo_env\<lparr>now := 1601\<rparr>)
     ''1000|email|ana@pasc.example|purpose|login.28'' demo_pending) = [SignaturePath] \<and>
   ui (verify_flow demo_lib (demo_env\<lparr>now := 1601\<rparr>)
     ''1000|email|ana@pasc.example|purpose|login.28'' demo_pending) = [ErrorTokenInvalid] \<and>
   session_state (after (verify_flow demo_lib (demo_env\<lparr>now := 1601\<rparr>)
     ''1000|email|ana@pasc.example|purpose|login.28'' demo_pending)) =
     session_state demo_pending"
  using demo_expired_run
    totp_attempted_only_on_mismatch [where L = demo_lib and E = "demo_env\<lparr>now := 1601\<rparr>"
      and inp = "''1000|email|ana@pasc.example|purpose|login.28''" and w = demo_pending]
  by blast

text \<open>
  The claim as stated fails: the pending token is submitted 601 seconds after issuance,
  the user row with its secret is on file, the run shows the token error and no
  one-time code was checked.
\<close>

theorem totp_skipped_counterexample:
  "strip demo_lib ''1000|email|ana@pasc.example|purpose|login.28'' =
     pending_token (session_state demo_pending) \<and>
   verify_email_token demo_lib (demo_env\<lparr>now := 1601\<rparr>)
     (strip demo_lib ''1000|email|ana@pasc.example|purpose|login.28'') default_max_age = Inr None \<and>
   query_user (users demo_pending) (email (session_state demo_pending)) = Some demo_user \<and>
   TotpPath \<notin> set (attempted (verify_flow demo_lib (demo_env\<lparr>now := 1601\<rparr>)
     ''1000|email|ana@pasc.example|purpose|login.28'' demo_pending)) \<and>
   ui (verify_flow demo_lib (demo_env\<lparr>now := 1601\<rparr>)
     ''1000|email|ana@pasc.example|purpose|login.28'' demo_pending) = [ErrorTokenInvalid] \<and>
   \<not> authenticated (session_state (after (verify_flow demo_lib (demo_env\<lparr>now := 1601\<rparr>)
     ''1000|email|ana@pasc.example|purpose|login.28'' demo_pending)))"
proof -
  have no: "\<not> payload_ok None (email (session_state demo_pending))"
    by (simp add: payload_ok_def)
  have u: "query_user (users demo_pending) (email (session_state demo_pending)) = Some demo_user"
    by (simp add: demo_pending_fields query_user_def demo_user_def)
  show ?thesis
    using demo_expired_run u verify_flow_signature_fail [OF demo_expired_run no]
    by (simp add: demo_pending_fields)
qed

section \<open>Audit completeness\<close>

text \<open>
  Claim C1, as amended. When the audit file accepts the write: a request whose mail is
  delivered appends exactly one line and a request whose mail fails appends none; a
  verify call with an email on file appends exactly one line when the submitted text
  equals the pending token and the token check returns, or when the text differs from
  the pending token and the user row is found.
\<close>

theorem audit_record_per_attempt:
  assumes "sink_ok E"
  shows "(mail_ok E \<longrightarrow> appended 1 w (after (request_flow L E inp w))) \<and>
         (\<not> mail_ok E \<longrightarrow> appended 0 w (after (request_flow L E inp w))) \<and>
         (email (session_state w) \<noteq> [] \<and>
          (strip L inp = pending_token (session_state w) \<and>
             (\<exists>p. verify_email_token L E (strip L inp) default_max_age = Inr p) \<or>
           strip L inp \<noteq> pending_token (session_state w) \<and>
             query_user (users w) (email (session_state w)) \<noteq> None) \<longrightarrow>
            appended 1 w (after (verify_flow L E inp w)))"
proof -
  have request: "(mail_ok E \<longrightarrow> appended 1 w (after (request_flow L E inp w))) \<and>
      (\<not> mail_ok E \<longrightarrow> appended 0 w (after (request_flow L E inp w)))"
    using assms by (simp add: request_flow_eq Let_def appended_def)
  have verify: "appended 1 w (after (verify_flow L E inp w))"
    if "email (session_state w) \<noteq> []"
      and "strip L inp = pending_token (session_state w) \<and>
             (\<exists>p. verify_email_token L E (strip L inp) default_max_age = Inr p) \<or>
           strip L inp \<noteq> pending_token (session_state w) \<and>
             query_user (users w) (email (session_state w)) \<noteq> None"
  proof (cases rule: verify_flow_cases [where w = w and inp = inp and L = L and E = E])
    case no_email
    then show ?thesis using that by simp
  next
    case signature_raises
    then show ?thesis using that by simp
  next
    case (signature_pass p)
    then show ?thesis using assms by (simp add: verify_flow_signature_pass appended_def)
  next
    case (signature_fail p)
    then show ?thesis using assms by (simp add: verify_flow_signature_fail appended_def)
  next
    case (totp_pass u)
    then show ?thesis using assms by (simp add: verify_flow_totp_pass appended_def)
  next
    case (totp_fail u)
    then show ?thesis using assms by (simp add: verify_flow_totp_fail appended_def)
  next
    case no_user
    then show ?thesis using that by simp
  qed
  show ?thesis
    using request verify by blast
qed

theorem audit_record_per_attempt_witness:
  "sink_ok demo_env \<and> mail_ok demo_env \<and>
   appended 1 demo_start (after (request_flow demo_lib demo_env ''  Ana@PASC.example '' demo_start)) \<and>
   sink_ok (demo_env\<lparr>mail_ok := False\<rparr>) \<and> \<not> mail_ok (demo_env\<lparr>mail_ok := False\<rparr>) \<and>
   appended 0 demo_start
     (after (request_flow demo_lib (demo_env\<lparr>mail_ok := False\<rparr>) ''  Ana@PASC.example ''
        demo_start)) \<and>
   email (session_state demo_pending) \<noteq> [] \<and>
   strip demo_lib ''000540'' \<noteq> pending_token (session_state demo_pending) \<and>
   query_user (users demo_pending) (email (session_state demo_pending)) \<noteq> None \<and>
   appended 1 demo_pending (after (verify_flow demo_lib demo_env ''000540'' demo_pending)) \<and>
   sink_ok (demo_env\<lparr>now := 1601\<rparr>) \<and>
   strip demo_lib ''1000|email|ana@pasc.example|purpose|login.28'' =
     pending_token (session_state demo_pending) \<and>
   verify_email_token demo_lib (demo_env\<lparr>now := 1601\<rparr>)
     (strip demo_lib ''1000|email|ana@pasc.example|purpose|login.28'') default_max_age =
     Inr None \<and>
   appended 1 demo_pending
     (after (verify_flow demo_lib (demo_env\<lparr>now := 1601\<rparr>)
        ''1000|email|ana@pasc.example|purpose|login.28'' demo_pending))"
proof -
  have ok: "sink_ok demo_env" and mail: "mail_ok demo_env"
    and ok': "sink_ok (demo_env\<lparr>mail_ok := False\<rparr>)"
    and down: "\<not> mail_ok (demo_env\<lparr>mail_ok := False\<rparr>)"
    by (simp_all add: demo_env_def)
  have e: "email (session_state demo_pending) \<noteq> []"
    and u: "query_user (users demo_pending) (email (session_state demo_pending)) \<noteq> None"
    by (simp_all add: demo_pending_fields query_user_def demo_user_def)
  have late: "sink_ok (demo_env\<lparr>now := 1601\<rparr>)"
    by (simp add: demo_env_def)
  show ?thesis
    using ok mail ok' down e u late demo_code_is_not_token demo_expired_run(2,3)
      audit_record_per_attempt [OF ok, where w = demo_start and L = demo_lib
        and inp = "''  Ana@PASC.example ''"]
      audit_record_per_attempt [OF ok', where w = demo_start and L = demo_lib
        and inp = "''  Ana@PASC.example ''"]
      audit_record_per_attempt [OF ok, where w = demo_pending and L = demo_lib
        and inp = "''000540''"]
      audit_record_per_attempt [OF late, where w = demo_pending and L = demo_lib
        and inp = "''1000|email|ana@pasc.example|purpose|login.28''"]
    by blast
qed

text \<open>
  The claim as stated fails: a request whose mail delivery fails leaves the audit file
  empty.
\<close>

theorem unaudited_request_counterexample:
  "sink_ok (demo_env\<lparr>mail_ok := False\<rparr>) \<and>
   \<not> appended 1 demo_start
       (after (request_flow demo_lib (demo_env\<lparr>mail_ok := False\<rparr>) ''  Ana@PASC.example ''
          demo_start)) \<and>
   audit_file (after (request_flow demo_lib (demo_env\<lparr>mail_ok := False\<rparr>)
     ''  Ana@PASC.example '' demo_start)) = []"
  by (simp add: request_flow_eq Let_def appended_def demo_start_def demo_env_def)

text \<open>
  Claim C4, as amended. When the audit file refuses the write and the credential check
  of a verify call passes, the run ends with the \<open>OSError\<close>, shows nothing and appends
  nothing, but the session is authenticated: the flag is set before \<open>audit\<close> is
  called. In a request the refused write is caught by the handler of the mail error:
  session and audit file stay as they were.
\<close>

theorem audit_failure_leaves_authenticated:
  assumes "\<not> sink_ok E"
  shows "(email (session_state w) \<noteq> [] \<and> credential_passes L E inp w \<longrightarrow>
            authenticated (session_state (after (verify_flow L E inp w))) \<and>
            outcome (verify_flow L E inp w) = Raised OSError \<and>
            ui (verify_flow L E inp w) = [] \<and>
            audit_file (after (verify_flow L E inp w)) = audit_file w) \<and>
         session_state (after (request_flow L E inp w)) = session_state w \<and>
         ui (request_flow L E inp w) = [ErrorSendingMail] \<and>
         audit_file (after (request_flow L E inp w)) = audit_file w"
proof -
  have request: "session_state (after (request_flow L E inp w)) = session_state w \<and>
      ui (request_flow L E inp w) = [ErrorSendingMail] \<and>
      audit_file (after (request_flow L E inp w)) = audit_file w"
    using assms by (simp add: request_flow_eq Let_def)
  have verify: "authenticated (session_state (after (verify_flow L E inp w))) \<and>
      outcome (verify_flow L E inp w) = Raised OSError \<and>
      ui (verify_flow L E inp w) = [] \<and>
      audit_file (after (verify_flow L E inp w)) = audit_file w"
    if "email (session_state w) \<noteq> []" and "credential_passes L E inp w"
  proof (cases rule: verify_flow_cases [where w = w and inp = inp and L = L and E = E])
    case no_email
    then show ?thesis using that by simp
  next
    case signature_raises
    then show ?thesis using that by (simp add: credential_passes_def Let_def)
  next
    case (signature_pass p)
    then show ?thesis using assms by (simp add: verify_flow_signature_pass)
  next
    case (signature_fail p)
    then show ?thesis using that by (simp add: credential_passes_def Let_def)
  next
    case (totp_pass u)
    then show ?thesis using assms by (simp add: verify_flow_totp_pass)
  next
    case (totp_fail u)
    then show ?thesis using that by (simp add: credential_passes_def Let_def)
  next
    case no_user
    then show ?thesis using that by (simp add: credential_passes_def Let_def)
  qed
  show ?thesis
    using request verify by blast
qed

theorem audit_failure_leaves_authenticated_witness:
  "\<not> sink_ok (demo_env\<lparr>now := 1601, sink_ok := False\<rparr>) \<and>
   email (session_state demo_pending) \<noteq> [] \<and>
   credential_passes demo_lib (demo_env\<lparr>now := 1601, sink_ok := False\<rparr>) ''000540'' demo_pending \<and>
   authenticated (session_state (after (verify_flow demo_lib
     (demo_env\<lparr>now := 1601, sink_ok := False\<rparr>) ''000540'' demo_pending))) \<and>
   outcome (verify_flow demo_lib (demo_env\<lparr>now := 1601, sink_ok := False\<rparr>) ''000540''
     demo_pending) = Raised OSError \<and>
   audit_file (after (verify_flow demo_lib (demo_env\<lparr>now := 1601, sink_ok := False\<rparr>)
     ''000540'' demo_pending)) = audit_file demo_pending"
proof -
  have down: "\<not> sink_ok (demo_env\<lparr>now := 1601, sink_ok := False\<rparr>)"
    by simp
  have e: "email (session_state demo_pending) \<noteq> []"
    by (simp add: demo_pending_fields)
  have c: "credential_passes demo_lib (demo_env\<lparr>now := 1601, sink_ok := False\<rparr>) ''000540''
      demo_pending"
    by (rule demo_credential_passes) simp
  show ?thesis
    using down e c
      audit_failure_leaves_authenticated [OF down, where w = demo_pending and L = demo_lib
        and inp = "''000540''"]
    by blast
qed

text \<open>
  The claim as stated fails: a correct one-time code with the audit file refusing the
  write leaves the session authenticated and the audit file unchanged.
\<close>

theorem authenticated_without_audit_counterexample:
  "\<not> sink_ok (demo_env\<lparr>now := 1601, sink_ok := False\<rparr>) \<and>
   credential_passes demo_lib (demo_env\<lparr>now := 1601, sink_ok := False\<rparr>) ''000540'' demo_pending \<and>
   \<not> authenticated (session_state demo_pending) \<and>
   audit_file (after (verify_flow demo_lib (demo_env\<lparr>now := 1601, sink_ok := False\<rparr>)
     ''000540'' demo_pending)) = audit_file demo_pending \<and>
   authenticated (session_state (after (verify_flow demo_lib
     (demo_env\<lparr>now := 1601, sink_ok := False\<rparr>) ''000540'' demo_pending)))"
proof -
  have t: "now (demo_env\<lparr>now := 1601, sink_ok := False\<rparr>) = 1601"
    by simp
  show ?thesis
    using demo_credential_passes [OF t]
    by (simp add: demo_verify_totp [OF t] demo_pending_fields)
qed

section \<open>The session invariant\<close>

text \<open>
  Claim C10, as amended. In every world reachable from the initial session by runs of
  the script, an authenticated session has an email that is not empty. Pressing logout
  in an authenticated session resets the three fields to their initial values when
  the audit file accepts the write; when it refuses, the run ends with the exception
  and the world is unchanged.
\<close>

theorem authenticated_session_has_email:
  assumes "reachable L w"
  shows "(authenticated (session_state w) \<longrightarrow> email (session_state w) \<noteq> []) \<and>
         (authenticated (session_state w) \<and> sink_ok E \<longrightarrow>
            session_state (after (script_run L E ClickLogout w)) =
              \<lparr>email = [], pending_token = [], authenticated = False\<rparr>) \<and>
         (\<not> sink_ok E \<longrightarrow> after (script_run L E ClickLogout w) = w)"
  using reachable_keeps_email [OF assms]
  by (simp add: script_run_def logout_flow_eq initial_session_def)

theorem authenticated_session_has_email_witness:
  "reachable demo_lib demo_logged_in \<and>
   authenticated (session_state demo_logged_in) \<and>
   email (session_state demo_logged_in) \<noteq> [] \<and>
   sink_ok demo_env \<and>
   session_state (after (script_run demo_lib demo_env ClickLogout demo_logged_in)) =
     \<lparr>email = [], pending_token = [], authenticated = False\<rparr> \<and>
   \<not> sink_ok (demo_env\<lparr>sink_ok := False\<rparr>) \<and>
   after (script_run demo_lib (demo_env\<lparr>sink_ok := False\<rparr>) ClickLogout demo_logged_in) =
     demo_logged_in"
proof -
  have a: "authenticated (session_state demo_logged_in)"
    by (simp add: demo_logged_in_session)
  have ok: "sink_ok demo_env" and down: "\<not> sink_ok (demo_env\<lparr>sink_ok := False\<rparr>)"
    by (simp_all add: demo_env_def)
  show ?thesis
    using a ok down demo_logged_in_reachable
      authenticated_session_has_email [OF demo_logged_in_reachable, of demo_env]
      authenticated_session_has_email [OF demo_logged_in_reachable,
        of "demo_env\<lparr>sink_ok := False\<rparr>"]
    by blast
qed

text \<open>
  The claim as stated fails: with the audit file refusing the write, logout leaves the
  session of the example as it was.
\<close>

theorem logout_without_audit_counterexample:
  "reachable demo_lib demo_logged_in \<and>
   authenticated (session_state demo_logged_in) \<and>
   session_state (after (script_run demo_lib (demo_env\<lparr>sink_ok := False\<rparr>) ClickLogout
     demo_logged_in)) \<noteq> \<lparr>email = [], pending_token = [], authenticated = False\<rparr>"
  using demo_logged_in_reachable
  by (simp add: script_run_def logout_flow_eq demo_logged_in_session)

end
